theory Spec2Isabelle
  imports Main
begin

section \<open>ECMAScript values and the built-in conversions the hook calls\<close>

text \<open>
  The hook \<open>useRouteQuery\<close> (src/index.ts) calls four built-ins of the language:
  \<open>typeof\<close>, \<open>String(v)\<close>, \<open>Number(v)\<close> and \<open>isNaN(n)\<close>. They are modelled after
  ECMA-262 (ToString, Number::toString, ToNumber, StringToNumber).

  A string is a HOL \<open>string\<close>, one \<open>char\<close> per code unit below 256.

  A number is \<open>NaN\<close>, an infinity, or a finite decimal \<open>Finite neg m e\<close> of value
  \<open>(-1)^neg * m * 10^e\<close>; \<open>Finite True 0 0\<close> is the negative zero. The decimal is
  kept exact: rounding to binary64 is not part of the model. The model and the language
  agree on every decimal literal of at most 15 significant digits in the normal range
  of binary64 (a double keeps that many digits) and on every integer up to \<open>2^53\<close>:
  there \<open>Number\<close> loses nothing and \<open>String\<close> prints the same digits. The
  properties below use the numbers \<open>0\<close>, \<open>1\<close>, \<open>3\<close>, \<open>5\<close>, \<open>7\<close> and \<open>42\<close>, and
  the general statements hold for any number.
\<close>

datatype jsnumber = NaN | PosInfinity | NegInfinity | Finite bool nat int

text \<open>\<open>type QueryValue = string | number | boolean | undefined | null\<close> (index.ts, line 13).\<close>

datatype QueryValue = Str string | Num jsnumber | Bool bool | Undefined | Null

text \<open>The \<open>typeof\<close> operator; \<open>typeof null\<close> is \<open>"object"\<close>.\<close>

fun typeof :: "QueryValue \<Rightarrow> string" where
  "typeof (Str s) = ''string''"
| "typeof (Num n) = ''number''"
| "typeof (Bool b) = ''boolean''"
| "typeof Undefined = ''undefined''"
| "typeof Null = ''object''"

subsection \<open>Decimal digits\<close>

definition isDecimalDigit :: "char \<Rightarrow> bool" where
  "isDecimalDigit c = (48 \<le> (of_char c :: nat) \<and> (of_char c :: nat) \<le> 57)"

definition digitChar :: "nat \<Rightarrow> char" where
  "digitChar d = char_of (48 + d)"

text \<open>The value of a digit in base 16 (and so in bases 2, 8 and 10), if it is one.\<close>

definition hexDigitValue :: "char \<Rightarrow> nat option" where
  "hexDigitValue c =
     (let n = (of_char c :: nat) in
      if 48 \<le> n \<and> n \<le> 57 then Some (n - 48)
      else if 97 \<le> n \<and> n \<le> 102 then Some (n - 87)
      else if 65 \<le> n \<and> n \<le> 70 then Some (n - 55)
      else None)"

definition isDigitOfBase :: "nat \<Rightarrow> char \<Rightarrow> bool" where
  "isDigitOfBase b c = (case hexDigitValue c of None \<Rightarrow> False | Some d \<Rightarrow> d < b)"

text \<open>The mathematical value of a digit string in base \<open>b\<close>, most significant digit first.\<close>

fun digitsValue :: "nat \<Rightarrow> nat \<Rightarrow> string \<Rightarrow> nat" where
  "digitsValue b acc [] = acc"
| "digitsValue b acc (c # cs) =
     digitsValue b (acc * b + (case hexDigitValue c of None \<Rightarrow> 0 | Some d \<Rightarrow> d)) cs"

text \<open>The decimal digits of a natural number, most significant first, no leading zero.\<close>

function decimalDigits :: "nat \<Rightarrow> string" where
  "decimalDigits n =
     (if n < 10 then [digitChar n] else decimalDigits (n div 10) @ [digitChar (n mod 10)])"
  by pat_completeness auto
termination
  by (relation "measure (\<lambda>n. n)") auto

text \<open>
  A finite decimal in normal form: the mantissa has no trailing zero, and zero has
  exponent 0. Two finite numbers in normal form are equal exactly when they are the
  same \<open>Finite\<close> term.
\<close>

function normalizeDecimal :: "nat \<Rightarrow> int \<Rightarrow> nat \<times> int" where
  "normalizeDecimal m e =
     (if m = 0 then (0, 0)
      else if m mod 10 = 0 then normalizeDecimal (m div 10) (e + 1)
      else (m, e))"
  by pat_completeness auto
termination
  by (relation "measure (\<lambda>(m, e). m)") auto

definition finiteDecimal :: "bool \<Rightarrow> nat \<Rightarrow> int \<Rightarrow> jsnumber" where
  "finiteDecimal neg m e = (case normalizeDecimal m e of (m', e') \<Rightarrow> Finite neg m' e')"

subsection \<open>\<open>Number(string)\<close>: StringToNumber\<close>

text \<open>StrWhiteSpaceChar: TAB, LF, VT, FF, CR, SP and NBSP (the ones below 256).\<close>

definition isStrWhiteSpaceChar :: "char \<Rightarrow> bool" where
  "isStrWhiteSpaceChar c = ((of_char c :: nat) \<in> {9, 10, 11, 12, 13, 32, 160})"

definition trimString :: "string \<Rightarrow> string" where
  "trimString s = rev (dropWhile isStrWhiteSpaceChar (rev (dropWhile isStrWhiteSpaceChar s)))"

text \<open>
  NonDecimalIntegerLiteral: \<open>0b\<close>, \<open>0o\<close> or \<open>0x\<close> (either case) and at least one digit
  of that base. The result is \<open>None\<close> when the string has no such prefix, \<open>Some NaN\<close>
  when the prefix is there and the rest is not a digit string.
\<close>

definition nonDecimalBase :: "char \<Rightarrow> nat option" where
  "nonDecimalBase c =
     (if c = CHR ''b'' \<or> c = CHR ''B'' then Some 2
      else if c = CHR ''o'' \<or> c = CHR ''O'' then Some 8
      else if c = CHR ''x'' \<or> c = CHR ''X'' then Some 16
      else None)"

fun NonDecimalIntegerLiteral :: "string \<Rightarrow> jsnumber option" where
  "NonDecimalIntegerLiteral (z # p # ds) =
     (if z = CHR ''0'' then
        (case nonDecimalBase p of
           None \<Rightarrow> None
         | Some b \<Rightarrow>
             Some (if ds \<noteq> [] \<and> list_all (isDigitOfBase b) ds
                   then finiteDecimal False (digitsValue b 0 ds) 0 else NaN))
      else None)"
| "NonDecimalIntegerLiteral s = None"

text \<open>
  ExponentPart, optional: \<open>e\<close> or \<open>E\<close>, an optional sign, at least one digit. The
  outer \<open>None\<close> is a syntax error.
\<close>

definition SignedInteger :: "string \<Rightarrow> int option" where
  "SignedInteger s =
     (let (neg, ds) = (case s of
                         c # t \<Rightarrow> if c = CHR ''-'' then (True, t)
                                  else if c = CHR ''+'' then (False, t) else (False, s)
                       | [] \<Rightarrow> (False, s))
      in if ds \<noteq> [] \<and> list_all isDecimalDigit ds
         then Some (if neg then - int (digitsValue 10 0 ds) else int (digitsValue 10 0 ds))
         else None)"

definition ExponentPart :: "string \<Rightarrow> int option" where
  "ExponentPart s =
     (case s of
        [] \<Rightarrow> Some 0
      | c # t \<Rightarrow> if c = CHR ''e'' \<or> c = CHR ''E'' then SignedInteger t else None)"

text \<open>
  StrUnsignedDecimalLiteral without \<open>Infinity\<close>: digits, an optional point and
  digits, an optional exponent, with a digit before or after the point. The result is
  the mantissa and the exponent of the literal's mathematical value.
\<close>

definition StrUnsignedDecimalLiteral :: "string \<Rightarrow> (nat \<times> int) option" where
  "StrUnsignedDecimalLiteral s =
     (let ip = takeWhile isDecimalDigit s;
          r1 = dropWhile isDecimalDigit s;
          (fp, r2) = (case r1 of
                        [] \<Rightarrow> ([], r1)
                      | c # t \<Rightarrow> if c = CHR ''.''
                                 then (takeWhile isDecimalDigit t, dropWhile isDecimalDigit t)
                                 else ([], r1))
      in if ip = [] \<and> fp = [] then None
         else (case ExponentPart r2 of
                 None \<Rightarrow> None
               | Some e \<Rightarrow> Some (digitsValue 10 0 (ip @ fp), e - int (length fp))))"

definition StrDecimalLiteral :: "string \<Rightarrow> jsnumber" where
  "StrDecimalLiteral s =
     (let (neg, u) = (case s of
                        c # t \<Rightarrow> if c = CHR ''-'' then (True, t)
                                 else if c = CHR ''+'' then (False, t) else (False, s)
                      | [] \<Rightarrow> (False, s))
      in if u = ''Infinity'' then (if neg then NegInfinity else PosInfinity)
         else (case StrUnsignedDecimalLiteral u of
                 None \<Rightarrow> NaN
               | Some (m, e) \<Rightarrow> finiteDecimal neg m e))"

definition StringToNumber :: "string \<Rightarrow> jsnumber" where
  "StringToNumber s =
     (let t = trimString s in
      if t = [] then Finite False 0 0
      else (case NonDecimalIntegerLiteral t of
              Some n \<Rightarrow> n
            | None \<Rightarrow> StrDecimalLiteral t))"

subsection \<open>\<open>String(number)\<close>: Number::toString in radix 10\<close>

text \<open>
  For a positive finite number with normal mantissa \<open>s\<close> of \<open>k\<close> digits and
  \<open>n = e + k\<close>: plain digits when \<open>k \<le> n \<le> 21\<close>, a point inside the digits when
  \<open>0 < n \<le> 21\<close>, \<open>0.\<close> and zeros when \<open>-6 < n \<le> 0\<close>, exponent notation otherwise.
\<close>

definition positiveToString :: "nat \<Rightarrow> int \<Rightarrow> string" where
  "positiveToString m e =
     (let ds = decimalDigits m; k = int (length ds); n = e + k in
      if k \<le> n \<and> n \<le> 21 then ds @ replicate (nat (n - k)) CHR ''0''
      else if 0 < n \<and> n \<le> 21 then take (nat n) ds @ ''.'' @ drop (nat n) ds
      else if - 6 < n \<and> n \<le> 0 then ''0.'' @ replicate (nat (- n)) CHR ''0'' @ ds
      else (let x = (if n - 1 < 0 then ''-'' else ''+'') @ decimalDigits (nat \<bar>n - 1\<bar>) in
            if k = 1 then ds @ ''e'' @ x
            else take 1 ds @ ''.'' @ drop 1 ds @ ''e'' @ x))"

fun NumberToString :: "jsnumber \<Rightarrow> string" where
  "NumberToString NaN = ''NaN''"
| "NumberToString PosInfinity = ''Infinity''"
| "NumberToString NegInfinity = ''-Infinity''"
| "NumberToString (Finite neg m e) =
     (case normalizeDecimal m e of (m', e') \<Rightarrow>
        if m' = 0 then ''0''
        else if neg then ''-'' @ positiveToString m' e'
        else positiveToString m' e')"

subsection \<open>\<open>String(v)\<close>, \<open>Number(v)\<close> and \<open>isNaN\<close>\<close>

fun ToString :: "QueryValue \<Rightarrow> string" where
  "ToString (Str s) = s"
| "ToString (Num n) = NumberToString n"
| "ToString (Bool b) = (if b then ''true'' else ''false'')"
| "ToString Undefined = ''undefined''"
| "ToString Null = ''null''"

fun ToNumber :: "QueryValue \<Rightarrow> jsnumber" where
  "ToNumber (Str s) = StringToNumber s"
| "ToNumber (Num n) = n"
| "ToNumber (Bool b) = (if b then Finite False 1 0 else Finite False 0 0)"
| "ToNumber Undefined = NaN"
| "ToNumber Null = Finite False 0 0"

definition isNaN :: "jsnumber \<Rightarrow> bool" where
  "isNaN n = (n = NaN)"

section \<open>The data of the hook\<close>

text \<open>
  The router's query object (vue-router): \<open>LocationQueryValue = string | null\<close>, and
  \<open>route.query\<close> maps a key to one such value or to an array of them. A key the
  object does not have reads as \<open>undefined\<close>: \<open>None\<close> in the map. Here and below
  an object is the map of its own properties; the names every object inherits from
  \<open>Object.prototype\<close> (a key such as \<open>constructor\<close>) are not modelled.
\<close>

datatype LocationQueryValue = QNull | QStr string

datatype LocationQueryEntry = Single LocationQueryValue | Multi "LocationQueryValue list"

type_synonym LocationQuery = "string \<rightharpoonup> LocationQueryEntry"

text \<open>
  \<open>type QueryParams = Record<string, Ref<QueryValue>>\<close>. A \<open>Ref\<close> is a mutable cell
  the caller owns, and one cell may be stored under several keys, so a cell is an
  address and its \<open>.value\<close> lives in a store. The table is the list of its entries in
  the order \<open>for (const key in params)\<close> visits them; an object holds a key once, so
  the keys of a table are distinct.
\<close>

type_synonym ref = nat

type_synonym QueryParams = "(string \<times> ref) list"

type_synonym store = "ref \<Rightarrow> QueryValue"

text \<open>\<open>emptyValueHandle?: "remove" | "keep"\<close>, default \<open>"remove"\<close> (lines 48 and 143).\<close>

datatype EmptyValueHandle = Remove | Keep

section \<open>The operations of the hook\<close>

text \<open>
  The four closures of \<open>useRouteQuery\<close> read \<open>params\<close>, \<open>excludeKeys\<close>,
  \<open>emptyValueHandle\<close> and \<open>route.query\<close> from their environment; the model passes
  them as arguments, with the store that holds the \<open>.value\<close> of every \<open>Ref\<close>.
\<close>

subsection \<open>\<open>convertRouteValue\<close> (lines 159 to 179)\<close>

text \<open>
  \<open>const stringValue = Array.isArray(routeValue) ? routeValue[0] : String(routeValue)\<close>.
  The first element of an array is \<open>undefined\<close> for the empty array, and may be
  \<open>null\<close>; it is not passed through \<open>String\<close>.
\<close>

fun stringValue :: "LocationQueryEntry \<Rightarrow> QueryValue" where
  "stringValue (Multi []) = Undefined"
| "stringValue (Multi (QNull # rest)) = Null"
| "stringValue (Multi (QStr s # rest)) = Str s"
| "stringValue (Single QNull) = Str (ToString Null)"
| "stringValue (Single (QStr s)) = Str (ToString (Str s))"

fun convertRouteValue :: "LocationQueryEntry option \<Rightarrow> QueryValue \<Rightarrow> QueryValue" where
  "convertRouteValue None originalValue = originalValue"
| "convertRouteValue (Some (Single QNull)) originalValue = originalValue"
| "convertRouteValue (Some routeValue) originalValue =
     (if typeof originalValue = ''number'' then
        (let num = ToNumber (stringValue routeValue) in
         if isNaN num then originalValue else Num num)
      else if typeof originalValue = ''boolean'' then
        Bool (stringValue routeValue = Str ''true'')
      else stringValue routeValue)"

subsection \<open>\<open>initParamsFromRoute\<close> (lines 188 to 197)\<close>

fun initParamsFromRoute ::
  "QueryParams \<Rightarrow> string list \<Rightarrow> LocationQuery \<Rightarrow> store \<Rightarrow> store" where
  "initParamsFromRoute [] excludeKeys query \<sigma> = \<sigma>"
| "initParamsFromRoute ((key, r) # rest) excludeKeys query \<sigma> =
     (if key \<in> set excludeKeys then initParamsFromRoute rest excludeKeys query \<sigma>
      else
        (let routeValue = query key in
         if routeValue \<noteq> None \<and> routeValue \<noteq> Some (Single QNull)
         then initParamsFromRoute rest excludeKeys query
                (\<sigma>(r := convertRouteValue routeValue (\<sigma> r)))
         else initParamsFromRoute rest excludeKeys query \<sigma>))"

subsection \<open>\<open>updateRouteQuery\<close> (lines 209 to 233)\<close>

text \<open>The \<open>for\<close> loop over the working copy \<open>currentQuery\<close>.\<close>

fun updateRouteQuery_loop ::
  "QueryParams \<Rightarrow> string list \<Rightarrow> EmptyValueHandle \<Rightarrow> store \<Rightarrow> LocationQuery \<Rightarrow> LocationQuery"
  where
  "updateRouteQuery_loop [] excludeKeys emptyValueHandle \<sigma> currentQuery = currentQuery"
| "updateRouteQuery_loop ((key, r) # rest) excludeKeys emptyValueHandle \<sigma> currentQuery =
     (if key \<in> set excludeKeys
      then updateRouteQuery_loop rest excludeKeys emptyValueHandle \<sigma> currentQuery
      else
        (let value = \<sigma> r in
         if value = Undefined \<or> value = Null \<or> value = Str ''''
         then (if emptyValueHandle = Remove
               then updateRouteQuery_loop rest excludeKeys emptyValueHandle \<sigma>
                      (currentQuery(key := None))
               else updateRouteQuery_loop rest excludeKeys emptyValueHandle \<sigma>
                      (currentQuery(key \<mapsto> Single (QStr ''''))))
         else updateRouteQuery_loop rest excludeKeys emptyValueHandle \<sigma>
                (currentQuery(key \<mapsto> Single (QStr (ToString value))))))"

text \<open>
  \<open>const currentQuery = { ...route.query }\<close>, the loop, and
  \<open>router.replace({ query: currentQuery })\<close>: the result is the query mapping handed to
  the router. The function reads the store and writes nothing to it.
\<close>

definition updateRouteQuery ::
  "QueryParams \<Rightarrow> string list \<Rightarrow> EmptyValueHandle \<Rightarrow> LocationQuery \<Rightarrow> store \<Rightarrow> LocationQuery"
  where
  "updateRouteQuery params excludeKeys emptyValueHandle query \<sigma> =
     updateRouteQuery_loop params excludeKeys emptyValueHandle \<sigma> query"

subsection \<open>\<open>resetParams\<close> (lines 261 to 281)\<close>

text \<open>The default of the \<open>else\<close> branch, from the type of the current value.\<close>

definition resetDefault :: "QueryValue \<Rightarrow> QueryValue" where
  "resetDefault currentValue =
     (if typeof currentValue = ''number'' then Num (Finite False 0 0)
      else if typeof currentValue = ''boolean'' then Bool False
      else Str '''')"

text \<open>
  \<open>resetValues\<close> is optional (\<open>None\<close> when the call has no argument); an object maps
  the keys it has to values, \<open>undefined\<close> and \<open>null\<close> among them, and \<open>key in
  resetValues\<close> asks whether the key is there.
\<close>

fun resetParams ::
  "QueryParams \<Rightarrow> string list \<Rightarrow> (string \<rightharpoonup> QueryValue) option \<Rightarrow> store \<Rightarrow> store" where
  "resetParams [] excludeKeys resetValues \<sigma> = \<sigma>"
| "resetParams ((key, r) # rest) excludeKeys resetValues \<sigma> =
     (if key \<in> set excludeKeys then resetParams rest excludeKeys resetValues \<sigma>
      else
        (case resetValues of
           None \<Rightarrow> resetParams rest excludeKeys resetValues (\<sigma>(r := resetDefault (\<sigma> r)))
         | Some values \<Rightarrow>
             (case values key of
                Some v \<Rightarrow> resetParams rest excludeKeys resetValues (\<sigma>(r := v))
              | None \<Rightarrow>
                  resetParams rest excludeKeys resetValues (\<sigma>(r := resetDefault (\<sigma> r))))))"

section \<open>How each loop treats one entry of the table\<close>

text \<open>
  Each loop is unfolded by one entry; a cell that no visited entry holds is left
  alone (the frame lemmas), and the entry of a key determines what happens to its
  cell or to its key of the query (the entry lemmas).
\<close>

lemma initParamsFromRoute_Cons:
  "initParamsFromRoute ((k', r') # ps) ex q \<sigma> =
   initParamsFromRoute ps ex q
     (if k' \<notin> set ex \<and> q k' \<noteq> None \<and> q k' \<noteq> Some (Single QNull)
      then \<sigma>(r' := convertRouteValue (q k') (\<sigma> r')) else \<sigma>)"
  by (simp add: Let_def)

lemma initParamsFromRoute_frame:
  "\<forall>(k', r') \<in> set ps. k' \<notin> set ex \<longrightarrow> r' \<noteq> r \<Longrightarrow>
   initParamsFromRoute ps ex q \<sigma> r = \<sigma> r"
proof (induction ps arbitrary: \<sigma>)
  case Nil
  show ?case by simp
next
  case (Cons e ps)
  obtain k' r' where e: "e = (k', r')" by (cases e)
  from Cons.prems have rest: "\<forall>(k', r') \<in> set ps. k' \<notin> set ex \<longrightarrow> r' \<noteq> r"
    by simp
  from Cons.prems e have hd: "k' \<notin> set ex \<Longrightarrow> r' \<noteq> r"
    by simp
  show ?case
    unfolding e initParamsFromRoute_Cons Cons.IH [OF rest] using hd by auto
qed

lemma initParamsFromRoute_entry:
  "distinct (map snd ps) \<Longrightarrow> (k, r) \<in> set ps \<Longrightarrow> k \<notin> set ex \<Longrightarrow>
   initParamsFromRoute ps ex q \<sigma> r =
     (if q k \<noteq> None \<and> q k \<noteq> Some (Single QNull) then convertRouteValue (q k) (\<sigma> r) else \<sigma> r)"
proof (induction ps arbitrary: \<sigma>)
  case Nil
  then show ?case by simp
next
  case (Cons e ps)
  obtain k' r' where e: "e = (k', r')" by (cases e)
  from Cons.prems(1) e have d: "distinct (map snd ps)" and fresh: "r' \<notin> snd ` set ps"
    by simp_all
  show ?case
  proof (cases "(k, r) = (k', r')")
    case True
    then have kr: "k' = k" "r' = r" by simp_all
    from fresh kr have "\<forall>(k'', r'') \<in> set ps. k'' \<notin> set ex \<longrightarrow> r'' \<noteq> r"
      by force
    then have fr: "\<And>\<tau>. initParamsFromRoute ps ex q \<tau> r = \<tau> r"
      by (rule initParamsFromRoute_frame)
    show ?thesis
      unfolding e kr initParamsFromRoute_Cons fr using Cons.prems(3) by simp
  next
    case False
    with Cons.prems(2) e have mem: "(k, r) \<in> set ps" by auto
    with fresh have ne: "r' \<noteq> r" by force
    show ?thesis
      unfolding e initParamsFromRoute_Cons Cons.IH [OF d mem Cons.prems(3)] using ne by simp
  qed
qed

lemma initParamsFromRoute_query_excluded:
  "k \<in> set ex \<Longrightarrow>
   initParamsFromRoute ps ex (q(k := x)) \<sigma> = initParamsFromRoute ps ex q \<sigma>"
proof (induction ps arbitrary: \<sigma>)
  case Nil
  show ?case by simp
next
  case (Cons e ps)
  obtain k' r' where e: "e = (k', r')" by (cases e)
  from Cons.prems have "k' \<notin> set ex \<Longrightarrow> k' \<noteq> k" by auto
  then show ?case
    unfolding e initParamsFromRoute_Cons Cons.IH [OF Cons.prems] by auto
qed

lemma updateRouteQuery_loop_Cons:
  "updateRouteQuery_loop ((k', r') # ps) ex evh \<sigma> cq =
   updateRouteQuery_loop ps ex evh \<sigma>
     (if k' \<in> set ex then cq
      else cq(k' :=
        (if \<sigma> r' = Undefined \<or> \<sigma> r' = Null \<or> \<sigma> r' = Str '''' then
           (if evh = Remove then None else Some (Single (QStr '''')))
         else Some (Single (QStr (ToString (\<sigma> r')))))))"
  by (simp add: Let_def)

lemma updateRouteQuery_loop_frame:
  "k \<in> set ex \<or> k \<notin> fst ` set ps \<Longrightarrow>
   updateRouteQuery_loop ps ex evh \<sigma> cq k = cq k"
proof (induction ps arbitrary: cq)
  case Nil
  show ?case by simp
next
  case (Cons e ps)
  obtain k' r' where e: "e = (k', r')" by (cases e)
  from Cons.prems have rest: "k \<in> set ex \<or> k \<notin> fst ` set ps" by auto
  from Cons.prems e have hd: "k' \<notin> set ex \<Longrightarrow> k' \<noteq> k" by auto
  show ?case
    unfolding e updateRouteQuery_loop_Cons Cons.IH [OF rest] using hd by auto
qed

lemma updateRouteQuery_loop_entry:
  "distinct (map fst ps) \<Longrightarrow> (k, r) \<in> set ps \<Longrightarrow> k \<notin> set ex \<Longrightarrow>
   updateRouteQuery_loop ps ex evh \<sigma> cq k =
     (if \<sigma> r = Undefined \<or> \<sigma> r = Null \<or> \<sigma> r = Str '''' then
        (if evh = Remove then None else Some (Single (QStr '''')))
      else Some (Single (QStr (ToString (\<sigma> r)))))"
proof (induction ps arbitrary: cq)
  case Nil
  then show ?case by simp
next
  case (Cons e ps)
  obtain k' r' where e: "e = (k', r')" by (cases e)
  from Cons.prems(1) e have d: "distinct (map fst ps)" and fresh: "k' \<notin> fst ` set ps"
    by simp_all
  show ?case
  proof (cases "(k, r) = (k', r')")
    case True
    then have kr: "k' = k" "r' = r" by simp_all
    from fresh kr have "k \<in> set ex \<or> k \<notin> fst ` set ps" by simp
    then have fr: "\<And>c. updateRouteQuery_loop ps ex evh \<sigma> c k = c k"
      by (rule updateRouteQuery_loop_frame)
    show ?thesis
      unfolding e kr updateRouteQuery_loop_Cons fr using Cons.prems(3) by simp
  next
    case False
    with Cons.prems(2) e have mem: "(k, r) \<in> set ps" by auto
    show ?thesis
      unfolding e updateRouteQuery_loop_Cons by (rule Cons.IH [OF d mem Cons.prems(3)])
  qed
qed

lemma resetParams_Cons:
  "resetParams ((k', r') # ps) ex rv \<sigma> =
   resetParams ps ex rv
     (if k' \<in> set ex then \<sigma>
      else \<sigma>(r' :=
        (case rv of
           None \<Rightarrow> resetDefault (\<sigma> r')
         | Some vals \<Rightarrow> (case vals k' of Some v \<Rightarrow> v | None \<Rightarrow> resetDefault (\<sigma> r')))))"
  by (simp split: option.split)

lemma resetParams_frame:
  "\<forall>(k', r') \<in> set ps. k' \<notin> set ex \<longrightarrow> r' \<noteq> r \<Longrightarrow>
   resetParams ps ex rv \<sigma> r = \<sigma> r"
proof (induction ps arbitrary: \<sigma>)
  case Nil
  show ?case by simp
next
  case (Cons e ps)
  obtain k' r' where e: "e = (k', r')" by (cases e)
  from Cons.prems have rest: "\<forall>(k', r') \<in> set ps. k' \<notin> set ex \<longrightarrow> r' \<noteq> r"
    by simp
  from Cons.prems e have hd: "k' \<notin> set ex \<Longrightarrow> r' \<noteq> r"
    by simp
  show ?case
    unfolding e resetParams_Cons Cons.IH [OF rest] using hd by auto
qed

lemma resetParams_entry:
  "distinct (map snd ps) \<Longrightarrow> (k, r) \<in> set ps \<Longrightarrow> k \<notin> set ex \<Longrightarrow>
   resetParams ps ex rv \<sigma> r =
     (case rv of
        None \<Rightarrow> resetDefault (\<sigma> r)
      | Some vals \<Rightarrow> (case vals k of Some v \<Rightarrow> v | None \<Rightarrow> resetDefault (\<sigma> r)))"
proof (induction ps arbitrary: \<sigma>)
  case Nil
  then show ?case by simp
next
  case (Cons e ps)
  obtain k' r' where e: "e = (k', r')" by (cases e)
  from Cons.prems(1) e have d: "distinct (map snd ps)" and fresh: "r' \<notin> snd ` set ps"
    by simp_all
  show ?case
  proof (cases "(k, r) = (k', r')")
    case True
    then have kr: "k' = k" "r' = r" by simp_all
    from fresh kr have "\<forall>(k'', r'') \<in> set ps. k'' \<notin> set ex \<longrightarrow> r'' \<noteq> r"
      by force
    then have fr: "\<And>\<tau>. resetParams ps ex rv \<tau> r = \<tau> r"
      by (rule resetParams_frame)
    show ?thesis
      unfolding e kr resetParams_Cons fr using Cons.prems(3) by simp
  next
    case False
    with Cons.prems(2) e have mem: "(k, r) \<in> set ps" by auto
    with fresh have ne: "r' \<noteq> r" by force
    show ?thesis
      unfolding e resetParams_Cons Cons.IH [OF d mem Cons.prems(3)] using ne
      by (auto split: option.split)
  qed
qed

section \<open>Commit to the query: \<open>updateRouteQuery\<close>\<close>

text \<open>Two values of the built-ins, computed once for the examples.\<close>

lemma NumberToString_42: "NumberToString (Finite False 42 0) = ''42''"
  by code_simp

text \<open>
  Claim C1. With \<open>emptyValueHandle = "remove"\<close>, a key of the table that is not
  excluded and whose reactive value is the empty string, \<open>undefined\<close> or \<open>null\<close> is
  absent from the query mapping that \<open>updateRouteQuery\<close> hands to the router, whatever
  the query held before (and whatever the other keys and cells are).
\<close>

theorem updateRouteQuery_remove_empty:
  assumes "distinct (map fst params)"
    and "(key, r) \<in> set params"
    and "key \<notin> set excludeKeys"
    and "\<sigma> r = Str '''' \<or> \<sigma> r = Undefined \<or> \<sigma> r = Null"
  shows "updateRouteQuery params excludeKeys Remove query \<sigma> key = None"
proof -
  have "updateRouteQuery_loop params excludeKeys Remove \<sigma> query key =
          (if \<sigma> r = Undefined \<or> \<sigma> r = Null \<or> \<sigma> r = Str '''' then
             (if Remove = Remove then None else Some (Single (QStr '''')))
           else Some (Single (QStr (ToString (\<sigma> r)))))"
    using assms(1-3) by (rule updateRouteQuery_loop_entry)
  with assms(4) show ?thesis
    unfolding updateRouteQuery_def by auto
qed

theorem updateRouteQuery_remove_empty_witness:
  "distinct (map fst [(''q'', 0), (''page'', 1), (''tag'', 2::nat)])
   \<and> updateRouteQuery [(''q'', 0), (''page'', 1), (''tag'', 2)] [] Remove
        [''q'' \<mapsto> Single (QStr ''vue''), ''page'' \<mapsto> Multi [QStr ''2'', QStr ''3'']]
        ((\<lambda>r. Undefined)(0 := Str '''', 1 := Null)) ''q'' = None
   \<and> updateRouteQuery [(''q'', 0), (''page'', 1), (''tag'', 2)] [] Remove
        [''q'' \<mapsto> Single (QStr ''vue''), ''page'' \<mapsto> Multi [QStr ''2'', QStr ''3'']]
        ((\<lambda>r. Undefined)(0 := Str '''', 1 := Null)) ''page'' = None
   \<and> updateRouteQuery [(''q'', 0), (''page'', 1), (''tag'', 2)] [] Remove
        [''q'' \<mapsto> Single (QStr ''vue''), ''page'' \<mapsto> Multi [QStr ''2'', QStr ''3'']]
        ((\<lambda>r. Undefined)(0 := Str '''', 1 := Null)) ''tag'' = None"
  using updateRouteQuery_remove_empty
          [of "[(''q'', 0), (''page'', 1), (''tag'', 2)]" "''q''" 0 "[]"
              "(\<lambda>r. Undefined)(0 := Str '''', 1 := Null)"
              "[''q'' \<mapsto> Single (QStr ''vue''), ''page'' \<mapsto> Multi [QStr ''2'', QStr ''3'']]"]
        updateRouteQuery_remove_empty
          [of "[(''q'', 0), (''page'', 1), (''tag'', 2)]" "''page''" 1 "[]"
              "(\<lambda>r. Undefined)(0 := Str '''', 1 := Null)"
              "[''q'' \<mapsto> Single (QStr ''vue''), ''page'' \<mapsto> Multi [QStr ''2'', QStr ''3'']]"]
        updateRouteQuery_remove_empty
          [of "[(''q'', 0), (''page'', 1), (''tag'', 2)]" "''tag''" 2 "[]"
              "(\<lambda>r. Undefined)(0 := Str '''', 1 := Null)"
              "[''q'' \<mapsto> Single (QStr ''vue''), ''page'' \<mapsto> Multi [QStr ''2'', QStr ''3'']]"]
  by simp

text \<open>
  Claim C2. With \<open>emptyValueHandle = "keep"\<close>, a key of the table that is not excluded
  is mapped to the empty string when its reactive value is the empty string,
  \<open>undefined\<close> or \<open>null\<close>, and to \<open>String(value)\<close> for every other value: \<open>42\<close> gives
  \<open>"42"\<close> and \<open>true\<close> gives \<open>"true"\<close>.
\<close>

theorem updateRouteQuery_keep:
  assumes "distinct (map fst params)"
    and "(key, r) \<in> set params"
    and "key \<notin> set excludeKeys"
  shows "updateRouteQuery params excludeKeys Keep query \<sigma> key =
           Some (Single (QStr (if \<sigma> r = Str '''' \<or> \<sigma> r = Undefined \<or> \<sigma> r = Null
                               then '''' else ToString (\<sigma> r))))"
proof -
  have "updateRouteQuery_loop params excludeKeys Keep \<sigma> query key =
          (if \<sigma> r = Undefined \<or> \<sigma> r = Null \<or> \<sigma> r = Str '''' then
             (if Keep = Remove then None else Some (Single (QStr '''')))
           else Some (Single (QStr (ToString (\<sigma> r)))))"
    using assms by (rule updateRouteQuery_loop_entry)
  then show ?thesis
    unfolding updateRouteQuery_def by auto
qed

theorem updateRouteQuery_keep_witness:
  "distinct (map fst [(''q'', 0), (''page'', 1), (''active'', 2), (''tag'', 3::nat)])
   \<and> updateRouteQuery [(''q'', 0), (''page'', 1), (''active'', 2), (''tag'', 3)] [] Keep
        [''q'' \<mapsto> Single (QStr ''vue'')]
        ((\<lambda>r. Null)(0 := Str '''', 1 := Num (Finite False 42 0), 2 := Bool True))
        ''q'' = Some (Single (QStr ''''))
   \<and> updateRouteQuery [(''q'', 0), (''page'', 1), (''active'', 2), (''tag'', 3)] [] Keep
        [''q'' \<mapsto> Single (QStr ''vue'')]
        ((\<lambda>r. Null)(0 := Str '''', 1 := Num (Finite False 42 0), 2 := Bool True))
        ''page'' = Some (Single (QStr ''42''))
   \<and> updateRouteQuery [(''q'', 0), (''page'', 1), (''active'', 2), (''tag'', 3)] [] Keep
        [''q'' \<mapsto> Single (QStr ''vue'')]
        ((\<lambda>r. Null)(0 := Str '''', 1 := Num (Finite False 42 0), 2 := Bool True))
        ''active'' = Some (Single (QStr ''true''))
   \<and> updateRouteQuery [(''q'', 0), (''page'', 1), (''active'', 2), (''tag'', 3)] [] Keep
        [''q'' \<mapsto> Single (QStr ''vue'')]
        ((\<lambda>r. Null)(0 := Str '''', 1 := Num (Finite False 42 0), 2 := Bool True))
        ''tag'' = Some (Single (QStr ''''))"
  using updateRouteQuery_keep
          [of "[(''q'', 0), (''page'', 1), (''active'', 2), (''tag'', 3)]" "''q''" 0 "[]"
              "[''q'' \<mapsto> Single (QStr ''vue'')]"
              "(\<lambda>r. Null)(0 := Str '''', 1 := Num (Finite False 42 0), 2 := Bool True)"]
        updateRouteQuery_keep
          [of "[(''q'', 0), (''page'', 1), (''active'', 2), (''tag'', 3)]" "''page''" 1 "[]"
              "[''q'' \<mapsto> Single (QStr ''vue'')]"
              "(\<lambda>r. Null)(0 := Str '''', 1 := Num (Finite False 42 0), 2 := Bool True)"]
        updateRouteQuery_keep
          [of "[(''q'', 0), (''page'', 1), (''active'', 2), (''tag'', 3)]" "''active''" 2 "[]"
              "[''q'' \<mapsto> Single (QStr ''vue'')]"
              "(\<lambda>r. Null)(0 := Str '''', 1 := Num (Finite False 42 0), 2 := Bool True)"]
        updateRouteQuery_keep
          [of "[(''q'', 0), (''page'', 1), (''active'', 2), (''tag'', 3)]" "''tag''" 3 "[]"
              "[''q'' \<mapsto> Single (QStr ''vue'')]"
              "(\<lambda>r. Null)(0 := Str '''', 1 := Num (Finite False 42 0), 2 := Bool True)"]
  by (simp add: NumberToString_42 del: NumberToString.simps)

text \<open>
  Claim C8. A key of the current query that is not a key of the parameter table keeps
  its entry in the mapping handed to the router (and a key that neither has stays
  absent): the working copy starts as the whole current query, and the loop writes
  only the keys of the table.
\<close>

theorem updateRouteQuery_foreign_key:
  assumes "key \<notin> fst ` set params"
  shows "updateRouteQuery params excludeKeys emptyValueHandle query \<sigma> key = query key"
  unfolding updateRouteQuery_def using assms by (simp add: updateRouteQuery_loop_frame)

theorem updateRouteQuery_foreign_key_witness:
  "''utm'' \<notin> fst ` set [(''q'', 0::nat), (''page'', 1)]
   \<and> updateRouteQuery [(''q'', 0), (''page'', 1)] [] Remove
        [''utm'' \<mapsto> Multi [QStr ''a'', QNull], ''q'' \<mapsto> Single (QStr ''vue'')]
        ((\<lambda>r. Undefined)(1 := Num (Finite False 42 0))) ''utm''
      = Some (Multi [QStr ''a'', QNull])
   \<and> updateRouteQuery [(''q'', 0), (''page'', 1)] [] Keep
        [''utm'' \<mapsto> Multi [QStr ''a'', QNull], ''q'' \<mapsto> Single (QStr ''vue'')]
        ((\<lambda>r. Undefined)(1 := Num (Finite False 42 0))) ''sort''
      = None"
  using updateRouteQuery_foreign_key
          [of "''utm''" "[(''q'', 0), (''page'', 1)]" "[]" Remove
              "[''utm'' \<mapsto> Multi [QStr ''a'', QNull], ''q'' \<mapsto> Single (QStr ''vue'')]"
              "(\<lambda>r. Undefined)(1 := Num (Finite False 42 0))"]
        updateRouteQuery_foreign_key
          [of "''sort''" "[(''q'', 0), (''page'', 1)]" "[]" Keep
              "[''utm'' \<mapsto> Multi [QStr ''a'', QNull], ''q'' \<mapsto> Single (QStr ''vue'')]"
              "(\<lambda>r. Undefined)(1 := Num (Finite False 42 0))"]
  by simp

section \<open>Seed from the query: \<open>initParamsFromRoute\<close>\<close>

text \<open>Values of \<open>Number(string)\<close> and \<open>String(number)\<close> that the examples use.\<close>

lemma StringToNumber_3: "StringToNumber ''3'' = Finite False 3 0"
  by code_simp

lemma StringToNumber_7: "StringToNumber ''7'' = Finite False 7 0"
  by code_simp

lemma StringToNumber_abc: "StringToNumber ''abc'' = NaN"
  by code_simp

lemma StringToNumber_empty: "StringToNumber '''' = Finite False 0 0"
  by code_simp

lemma NumberToString_3: "NumberToString (Finite False 3 0) = ''3''"
  by code_simp

text \<open>
  What the seed assigns to the cell of a key that is not excluded, when the query holds
  a string under that key or an array whose first element is a string: the three
  branches of \<open>convertRouteValue\<close>, by the type of the cell's current value.
\<close>

lemma initParamsFromRoute_string_entry:
  assumes "distinct (map snd params)"
    and "(key, r) \<in> set params"
    and "key \<notin> set excludeKeys"
    and "query key = Some routeValue"
    and "routeValue = Single (QStr s) \<or> routeValue = Multi (QStr s # rest)"
  shows "initParamsFromRoute params excludeKeys query \<sigma> r =
           (if typeof (\<sigma> r) = ''number'' then
              (if isNaN (StringToNumber s) then \<sigma> r else Num (StringToNumber s))
            else if typeof (\<sigma> r) = ''boolean'' then Bool (s = ''true'')
            else Str s)"
proof -
  have "initParamsFromRoute params excludeKeys query \<sigma> r =
          (if query key \<noteq> None \<and> query key \<noteq> Some (Single QNull)
           then convertRouteValue (query key) (\<sigma> r) else \<sigma> r)"
    using assms(1-3) by (rule initParamsFromRoute_entry)
  also have "\<dots> = convertRouteValue (Some routeValue) (\<sigma> r)"
    using assms(4,5) by auto
  also have "\<dots> = (if typeof (\<sigma> r) = ''number'' then
                       (if isNaN (StringToNumber s) then \<sigma> r else Num (StringToNumber s))
                     else if typeof (\<sigma> r) = ''boolean'' then Bool (s = ''true'')
                     else Str s)"
    using assms(5) by (auto simp: Let_def)
  finally show ?thesis .
qed

text \<open>
  Claim C5. For a parameter whose current value is a number, the seed parses the query
  string (of an array, its first element) with \<open>Number\<close>; when the result is \<open>NaN\<close>
  the cell keeps the value it had, and otherwise it holds the parsed number. The
  example: \<open>"abc"\<close> seeded into a cell holding \<open>5\<close> leaves \<open>5\<close>. The model has no
  error value because the source has no \<open>throw\<close> and calls nothing that raises.
\<close>

theorem initParamsFromRoute_number:
  assumes "distinct (map snd params)"
    and "(key, r) \<in> set params"
    and "key \<notin> set excludeKeys"
    and "query key = Some routeValue"
    and "routeValue = Single (QStr s) \<or> routeValue = Multi (QStr s # rest)"
    and "\<sigma> r = Num n"
  shows "initParamsFromRoute params excludeKeys query \<sigma> r =
           (if isNaN (StringToNumber s) then Num n else Num (StringToNumber s))"
  using initParamsFromRoute_string_entry [where query = query and key = key, OF assms(1-5)]
    assms(6)
  by simp

theorem initParamsFromRoute_number_witness:
  "distinct (map snd [(''page'', 0::nat), (''size'', 1)])
   \<and> isNaN (StringToNumber ''abc'')
   \<and> initParamsFromRoute [(''page'', 0), (''size'', 1)] []
        [''page'' \<mapsto> Single (QStr ''abc''), ''size'' \<mapsto> Multi [QStr ''7'', QStr ''9'']]
        (\<lambda>r. Num (Finite False 5 0)) 0 = Num (Finite False 5 0)
   \<and> initParamsFromRoute [(''page'', 0), (''size'', 1)] []
        [''page'' \<mapsto> Single (QStr ''abc''), ''size'' \<mapsto> Multi [QStr ''7'', QStr ''9'']]
        (\<lambda>r. Num (Finite False 5 0)) 1 = Num (Finite False 7 0)"
  using initParamsFromRoute_number
          [of "[(''page'', 0), (''size'', 1)]" "''page''" 0 "[]"
              "[''page'' \<mapsto> Single (QStr ''abc''), ''size'' \<mapsto> Multi [QStr ''7'', QStr ''9'']]"
              "Single (QStr ''abc'')" "''abc''" "[]" "\<lambda>r. Num (Finite False 5 0)" "Finite False 5 0"]
        initParamsFromRoute_number
          [of "[(''page'', 0), (''size'', 1)]" "''size''" 1 "[]"
              "[''page'' \<mapsto> Single (QStr ''abc''), ''size'' \<mapsto> Multi [QStr ''7'', QStr ''9'']]"
              "Multi [QStr ''7'', QStr ''9'']" "''7''" "[QStr ''9'']" "\<lambda>r. Num (Finite False 5 0)" "Finite False 5 0"]
  by (simp add: StringToNumber_abc StringToNumber_7 isNaN_def)

text \<open>
  Claim C6. For a parameter whose current value is a boolean, the seed assigns \<open>true\<close>
  exactly when the query string (of an array, its first element) is \<open>"true"\<close>, and
  \<open>false\<close> for every other string, \<open>"false"\<close>, \<open>"1"\<close> and \<open>"maybe"\<close> among them.
\<close>

theorem initParamsFromRoute_boolean:
  assumes "distinct (map snd params)"
    and "(key, r) \<in> set params"
    and "key \<notin> set excludeKeys"
    and "query key = Some routeValue"
    and "routeValue = Single (QStr s) \<or> routeValue = Multi (QStr s # rest)"
    and "\<sigma> r = Bool b"
  shows "initParamsFromRoute params excludeKeys query \<sigma> r = Bool (s = ''true'')"
  using initParamsFromRoute_string_entry [where query = query and key = key, OF assms(1-5)]
    assms(6)
  by simp

theorem initParamsFromRoute_boolean_witness:
  "distinct (map snd [(''active'', 0::nat), (''open'', 1), (''done'', 2), (''flag'', 3)])
   \<and> initParamsFromRoute [(''active'', 0), (''open'', 1), (''done'', 2), (''flag'', 3)] []
        [''active'' \<mapsto> Single (QStr ''maybe''), ''open'' \<mapsto> Single (QStr ''true''),
         ''done'' \<mapsto> Single (QStr ''false''), ''flag'' \<mapsto> Multi [QStr ''1'', QStr ''true'']]
        ((\<lambda>r. Bool True)(1 := Bool False)) 0 = Bool False
   \<and> initParamsFromRoute [(''active'', 0), (''open'', 1), (''done'', 2), (''flag'', 3)] []
        [''active'' \<mapsto> Single (QStr ''maybe''), ''open'' \<mapsto> Single (QStr ''true''),
         ''done'' \<mapsto> Single (QStr ''false''), ''flag'' \<mapsto> Multi [QStr ''1'', QStr ''true'']]
        ((\<lambda>r. Bool True)(1 := Bool False)) 1 = Bool True
   \<and> initParamsFromRoute [(''active'', 0), (''open'', 1), (''done'', 2), (''flag'', 3)] []
        [''active'' \<mapsto> Single (QStr ''maybe''), ''open'' \<mapsto> Single (QStr ''true''),
         ''done'' \<mapsto> Single (QStr ''false''), ''flag'' \<mapsto> Multi [QStr ''1'', QStr ''true'']]
        ((\<lambda>r. Bool True)(1 := Bool False)) 2 = Bool False
   \<and> initParamsFromRoute [(''active'', 0), (''open'', 1), (''done'', 2), (''flag'', 3)] []
        [''active'' \<mapsto> Single (QStr ''maybe''), ''open'' \<mapsto> Single (QStr ''true''),
         ''done'' \<mapsto> Single (QStr ''false''), ''flag'' \<mapsto> Multi [QStr ''1'', QStr ''true'']]
        ((\<lambda>r. Bool True)(1 := Bool False)) 3 = Bool False"
  using initParamsFromRoute_boolean
          [of "[(''active'', 0), (''open'', 1), (''done'', 2), (''flag'', 3)]" "''active''" 0 "[]"
              "[''active'' \<mapsto> Single (QStr ''maybe''), ''open'' \<mapsto> Single (QStr ''true''),
                ''done'' \<mapsto> Single (QStr ''false''), ''flag'' \<mapsto> Multi [QStr ''1'', QStr ''true'']]"
              "Single (QStr ''maybe'')" "''maybe''" "[]" "(\<lambda>r. Bool True)(1 := Bool False)" True]
        initParamsFromRoute_boolean
          [of "[(''active'', 0), (''open'', 1), (''done'', 2), (''flag'', 3)]" "''open''" 1 "[]"
              "[''active'' \<mapsto> Single (QStr ''maybe''), ''open'' \<mapsto> Single (QStr ''true''),
                ''done'' \<mapsto> Single (QStr ''false''), ''flag'' \<mapsto> Multi [QStr ''1'', QStr ''true'']]"
              "Single (QStr ''true'')" "''true''" "[]" "(\<lambda>r. Bool True)(1 := Bool False)" False]
        initParamsFromRoute_boolean
          [of "[(''active'', 0), (''open'', 1), (''done'', 2), (''flag'', 3)]" "''done''" 2 "[]"
              "[''active'' \<mapsto> Single (QStr ''maybe''), ''open'' \<mapsto> Single (QStr ''true''),
                ''done'' \<mapsto> Single (QStr ''false''), ''flag'' \<mapsto> Multi [QStr ''1'', QStr ''true'']]"
              "Single (QStr ''false'')" "''false''" "[]" "(\<lambda>r. Bool True)(1 := Bool False)" True]
        initParamsFromRoute_boolean
          [of "[(''active'', 0), (''open'', 1), (''done'', 2), (''flag'', 3)]" "''flag''" 3 "[]"
              "[''active'' \<mapsto> Single (QStr ''maybe''), ''open'' \<mapsto> Single (QStr ''true''),
                ''done'' \<mapsto> Single (QStr ''false''), ''flag'' \<mapsto> Multi [QStr ''1'', QStr ''true'']]"
              "Multi [QStr ''1'', QStr ''true'']" "''1''" "[QStr ''true'']" "(\<lambda>r. Bool True)(1 := Bool False)" True]
  by simp

text \<open>
  Claim C10. The empty string under the key of a parameter whose current value is a
  number passes the presence check, \<open>Number("")\<close> is \<open>0\<close> and not \<open>NaN\<close>, and the
  cell is assigned the number \<open>0\<close> whatever number it held.
\<close>

theorem initParamsFromRoute_number_empty_string:
  assumes "distinct (map snd params)"
    and "(key, r) \<in> set params"
    and "key \<notin> set excludeKeys"
    and "query key = Some (Single (QStr ''''))"
    and "\<sigma> r = Num n"
  shows "initParamsFromRoute params excludeKeys query \<sigma> r = Num (Finite False 0 0)"
  using initParamsFromRoute_string_entry
          [where query = query and key = key and s = "''''" and rest = "[]", OF assms(1-4)]
    assms(5)
  by (simp add: StringToNumber_empty isNaN_def)

theorem initParamsFromRoute_number_empty_string_witness:
  "distinct (map snd [(''page'', 0::nat)])
   \<and> initParamsFromRoute [(''page'', 0)] [] [''page'' \<mapsto> Single (QStr '''')]
        (\<lambda>r. Num (Finite False 5 0)) 0 = Num (Finite False 0 0)"
  using initParamsFromRoute_number_empty_string
          [of "[(''page'', 0)]" "''page''" 0 "[]" "[''page'' \<mapsto> Single (QStr '''')]"
              "\<lambda>r. Num (Finite False 5 0)" "Finite False 5 0"]
  by simp

text \<open>
  For a parameter whose current value is a string, \<open>undefined\<close> or \<open>null\<close>, the seed
  assigns the query string when the query holds a string or an array that starts with
  one.
\<close>

lemma initParamsFromRoute_string_hint:
  assumes "distinct (map snd params)"
    and "(key, r) \<in> set params"
    and "key \<notin> set excludeKeys"
    and "query key = Some routeValue"
    and "routeValue = Single (QStr s) \<or> routeValue = Multi (QStr s # rest)"
    and "\<sigma> r = Str t \<or> \<sigma> r = Undefined \<or> \<sigma> r = Null"
  shows "initParamsFromRoute params excludeKeys query \<sigma> r = Str s"
  using initParamsFromRoute_string_entry [where query = query and key = key, OF assms(1-5)]
    assms(6)
  by auto

text \<open>
  Claim C9 says that for such a parameter the seed always assigns a string, for every
  defined, non-null query value, arrays included. The array branch of
  \<open>convertRouteValue\<close> takes \<open>routeValue[0]\<close> as it is, where the other branch applies
  \<open>String\<close>: for the query of the URL \<open>?tag&tag\<close>, which the router parses to
  \<open>[null, null]\<close>, the parameter \<open>tag\<close> holding \<open>"vue"\<close> is assigned \<open>null\<close>.
\<close>

theorem initParamsFromRoute_null_first_element:
  "initParamsFromRoute [(''tag'', 0)] [] [''tag'' \<mapsto> Multi [QNull, QNull]] (\<lambda>r. Str ''vue'') 0
   = Null"
  by simp

section \<open>Seed, then commit\<close>

text \<open>
  Claim C3. Seeding from a query that maps \<open>page\<close> to \<open>"3"\<close> into a parameter whose
  current value is the number \<open>1\<close> leaves the number \<open>3\<close> in its cell, and a commit of
  the seeded store maps \<open>page\<close> to \<open>"3"\<close> again, whatever the query is at that time and
  whatever the empty-value policy.
\<close>

theorem seed_then_commit_page:
  assumes "distinct (map fst params)"
    and "distinct (map snd params)"
    and "(''page'', r) \<in> set params"
    and "''page'' \<notin> set excludeKeys"
    and "query ''page'' = Some (Single (QStr ''3''))"
    and "\<sigma> r = Num (Finite False 1 0)"
  shows "initParamsFromRoute params excludeKeys query \<sigma> r = Num (Finite False 3 0)
         \<and> updateRouteQuery params excludeKeys emptyValueHandle query'
              (initParamsFromRoute params excludeKeys query \<sigma>) ''page''
            = Some (Single (QStr ''3''))"
proof -
  have seeded: "initParamsFromRoute params excludeKeys query \<sigma> r = Num (Finite False 3 0)"
    using initParamsFromRoute_string_entry
            [where query = query and key = "''page''" and s = "''3''" and rest = "[]",
             OF assms(2-5)] assms(6)
    by (simp add: StringToNumber_3 isNaN_def)
  have "updateRouteQuery_loop params excludeKeys emptyValueHandle
          (initParamsFromRoute params excludeKeys query \<sigma>) query' ''page''
        = Some (Single (QStr (ToString (Num (Finite False 3 0)))))"
    using updateRouteQuery_loop_entry [OF assms(1,3,4), of emptyValueHandle
        "initParamsFromRoute params excludeKeys query \<sigma>" query']
    by (simp add: seeded del: ToString.simps)
  then have "updateRouteQuery params excludeKeys emptyValueHandle query'
               (initParamsFromRoute params excludeKeys query \<sigma>) ''page''
             = Some (Single (QStr ''3''))"
    unfolding updateRouteQuery_def by (simp add: NumberToString_3 del: NumberToString.simps)
  with seeded show ?thesis by simp
qed

theorem seed_then_commit_page_witness:
  "distinct (map fst [(''page'', 0::nat)]) \<and> distinct (map snd [(''page'', 0::nat)])
   \<and> initParamsFromRoute [(''page'', 0)] [] [''page'' \<mapsto> Single (QStr ''3'')]
        (\<lambda>r. Num (Finite False 1 0)) 0 = Num (Finite False 3 0)
   \<and> updateRouteQuery [(''page'', 0)] [] Remove [''page'' \<mapsto> Single (QStr ''3'')]
        (initParamsFromRoute [(''page'', 0)] [] [''page'' \<mapsto> Single (QStr ''3'')]
           (\<lambda>r. Num (Finite False 1 0))) ''page''
      = Some (Single (QStr ''3''))
   \<and> updateRouteQuery [(''page'', 0)] [] Remove Map.empty
        (initParamsFromRoute [(''page'', 0)] [] [''page'' \<mapsto> Single (QStr ''3'')]
           (\<lambda>r. Num (Finite False 1 0)))
      = [''page'' \<mapsto> Single (QStr ''3'')]"
proof -
  have whole: "updateRouteQuery [(''page'', 0)] [] Remove Map.empty
        (initParamsFromRoute [(''page'', 0)] [] [''page'' \<mapsto> Single (QStr ''3'')]
           (\<lambda>r. Num (Finite False 1 0)))
      = [''page'' \<mapsto> Single (QStr ''3'')]"
    by (simp add: updateRouteQuery_def Let_def StringToNumber_3 NumberToString_3 isNaN_def
          del: NumberToString.simps)
  show ?thesis
    using seed_then_commit_page
            [of "[(''page'', 0)]" 0 "[]" "[''page'' \<mapsto> Single (QStr ''3'')]"
                "\<lambda>r. Num (Finite False 1 0)" Remove "[''page'' \<mapsto> Single (QStr ''3'')]"]
          whole
    by (simp add: StringToNumber_3 isNaN_def Let_def)
qed

section \<open>Excluded keys\<close>

text \<open>
  Claim C4. For a key listed in \<open>excludeKeys\<close>: the seed does not depend on what the
  query holds under that key (it never reads it); the seed leaves the key's cell as it
  was, provided the cell is not also the cell of a key that is not excluded; and the
  commit hands to the router, under that key, exactly what the query held (an entry is
  carried over, an absent key stays absent). All three hold when the key is in the
  table and in the query.
\<close>

theorem excluded_key_untouched:
  assumes "key \<in> set excludeKeys"
  shows "initParamsFromRoute params excludeKeys (query(key := entry)) \<sigma>
           = initParamsFromRoute params excludeKeys query \<sigma>
         \<and> ((key, r) \<in> set params
              \<and> (\<forall>(key', r') \<in> set params. key' \<notin> set excludeKeys \<longrightarrow> r' \<noteq> r)
            \<longrightarrow> initParamsFromRoute params excludeKeys query \<sigma> r = \<sigma> r)
         \<and> updateRouteQuery params excludeKeys emptyValueHandle query \<sigma> key = query key"
proof -
  have reads: "initParamsFromRoute params excludeKeys (query(key := entry)) \<sigma>
                 = initParamsFromRoute params excludeKeys query \<sigma>"
    using assms by (rule initParamsFromRoute_query_excluded)
  have writes: "initParamsFromRoute params excludeKeys query \<sigma> r = \<sigma> r"
    if "\<forall>(key', r') \<in> set params. key' \<notin> set excludeKeys \<longrightarrow> r' \<noteq> r"
    using that by (rule initParamsFromRoute_frame)
  have commits: "updateRouteQuery params excludeKeys emptyValueHandle query \<sigma> key = query key"
    unfolding updateRouteQuery_def using assms by (simp add: updateRouteQuery_loop_frame)
  from reads writes commits show ?thesis by blast
qed

theorem excluded_key_untouched_witness:
  "''token'' \<in> set [''token'']
   \<and> (''token'', 1) \<in> set [(''q'', 0::nat), (''token'', 1)]
   \<and> initParamsFromRoute [(''q'', 0), (''token'', 1)] [''token'']
        [''q'' \<mapsto> Single (QStr ''vue''), ''token'' \<mapsto> Single (QStr ''abc'')]
        ((\<lambda>r. Str '''')(1 := Str ''secret''))
      = initParamsFromRoute [(''q'', 0), (''token'', 1)] [''token'']
          [''q'' \<mapsto> Single (QStr ''vue'')]
          ((\<lambda>r. Str '''')(1 := Str ''secret''))
   \<and> initParamsFromRoute [(''q'', 0), (''token'', 1)] [''token'']
        [''q'' \<mapsto> Single (QStr ''vue''), ''token'' \<mapsto> Single (QStr ''abc'')]
        ((\<lambda>r. Str '''')(1 := Str ''secret'')) 1 = Str ''secret''
   \<and> updateRouteQuery [(''q'', 0), (''token'', 1)] [''token''] Remove
        [''q'' \<mapsto> Single (QStr ''vue''), ''token'' \<mapsto> Single (QStr ''abc'')]
        ((\<lambda>r. Str '''')(1 := Str ''secret'')) ''token'' = Some (Single (QStr ''abc''))"
  using excluded_key_untouched
          [of "''token''" "[''token'']" "[(''q'', 0), (''token'', 1)]"
              "[''q'' \<mapsto> Single (QStr ''vue'')]" "Some (Single (QStr ''abc''))"
              "(\<lambda>r. Str '''')(1 := Str ''secret'')" 1 Remove]
        excluded_key_untouched
          [of "''token''" "[''token'']" "[(''q'', 0), (''token'', 1)]"
              "[''q'' \<mapsto> Single (QStr ''vue''), ''token'' \<mapsto> Single (QStr ''abc'')]" None
              "(\<lambda>r. Str '''')(1 := Str ''secret'')" 1 Remove]
  by (simp add: fun_upd_twist)

section \<open>Reset: \<open>resetParams\<close>\<close>

text \<open>
  Claim C7. For a key of the table that is not excluded, after \<open>resetParams\<close>: when
  the argument is given and has the key, the cell holds the supplied value as it is
  (\<open>undefined\<close> and \<open>null\<close> included); otherwise it holds the default of the type its
  value had at the call: \<open>0\<close> for a number, \<open>false\<close> for a boolean, the empty string
  for a string, \<open>undefined\<close> or \<open>null\<close>.
\<close>

theorem resetParams_value:
  assumes "distinct (map snd params)"
    and "(key, r) \<in> set params"
    and "key \<notin> set excludeKeys"
  shows "resetParams params excludeKeys resetValues \<sigma> r =
           (case (case resetValues of None \<Rightarrow> None | Some values \<Rightarrow> values key) of
              Some v \<Rightarrow> v
            | None \<Rightarrow>
                (case \<sigma> r of
                   Num n \<Rightarrow> Num (Finite False 0 0)
                 | Bool b \<Rightarrow> Bool False
                 | Str s \<Rightarrow> Str ''''
                 | Undefined \<Rightarrow> Str ''''
                 | Null \<Rightarrow> Str ''''))"
proof -
  have default: "resetDefault v =
                   (case v of
                      Num n \<Rightarrow> Num (Finite False 0 0)
                    | Bool b \<Rightarrow> Bool False
                    | Str s \<Rightarrow> Str ''''
                    | Undefined \<Rightarrow> Str ''''
                    | Null \<Rightarrow> Str '''')" for v
    by (cases v) (simp_all add: resetDefault_def)
  show ?thesis
    unfolding resetParams_entry [OF assms] default by (simp split: option.split)
qed

theorem resetParams_value_witness:
  "distinct (map snd [(''keyword'', 0::nat), (''page'', 1), (''active'', 2), (''tag'', 3)])
   \<and> resetParams [(''keyword'', 0), (''page'', 1), (''active'', 2), (''tag'', 3)] [] None
        ((\<lambda>r. Undefined)(0 := Str ''hello'', 1 := Num (Finite False 42 0), 2 := Bool True)) 0
      = Str ''''
   \<and> resetParams [(''keyword'', 0), (''page'', 1), (''active'', 2), (''tag'', 3)] [] None
        ((\<lambda>r. Undefined)(0 := Str ''hello'', 1 := Num (Finite False 42 0), 2 := Bool True)) 1
      = Num (Finite False 0 0)
   \<and> resetParams [(''keyword'', 0), (''page'', 1), (''active'', 2), (''tag'', 3)] [] None
        ((\<lambda>r. Undefined)(0 := Str ''hello'', 1 := Num (Finite False 42 0), 2 := Bool True)) 2
      = Bool False
   \<and> resetParams [(''keyword'', 0), (''page'', 1), (''active'', 2), (''tag'', 3)] []
        (Some [''page'' \<mapsto> Num (Finite False 1 0), ''active'' \<mapsto> Undefined])
        ((\<lambda>r. Undefined)(0 := Str ''hello'', 1 := Num (Finite False 42 0), 2 := Bool True)) 1
      = Num (Finite False 1 0)
   \<and> resetParams [(''keyword'', 0), (''page'', 1), (''active'', 2), (''tag'', 3)] []
        (Some [''page'' \<mapsto> Num (Finite False 1 0), ''active'' \<mapsto> Undefined])
        ((\<lambda>r. Undefined)(0 := Str ''hello'', 1 := Num (Finite False 42 0), 2 := Bool True)) 2
      = Undefined
   \<and> resetParams [(''keyword'', 0), (''page'', 1), (''active'', 2), (''tag'', 3)] []
        (Some [''page'' \<mapsto> Num (Finite False 1 0), ''active'' \<mapsto> Undefined])
        ((\<lambda>r. Undefined)(0 := Str ''hello'', 1 := Num (Finite False 42 0), 2 := Bool True)) 0
      = Str ''''"
  using resetParams_value
          [of "[(''keyword'', 0), (''page'', 1), (''active'', 2), (''tag'', 3)]" "''keyword''" 0 "[]" None
              "(\<lambda>r. Undefined)(0 := Str ''hello'', 1 := Num (Finite False 42 0), 2 := Bool True)"]
        resetParams_value
          [of "[(''keyword'', 0), (''page'', 1), (''active'', 2), (''tag'', 3)]" "''page''" 1 "[]" None
              "(\<lambda>r. Undefined)(0 := Str ''hello'', 1 := Num (Finite False 42 0), 2 := Bool True)"]
        resetParams_value
          [of "[(''keyword'', 0), (''page'', 1), (''active'', 2), (''tag'', 3)]" "''active''" 2 "[]" None
              "(\<lambda>r. Undefined)(0 := Str ''hello'', 1 := Num (Finite False 42 0), 2 := Bool True)"]
        resetParams_value
          [of "[(''keyword'', 0), (''page'', 1), (''active'', 2), (''tag'', 3)]" "''page''" 1 "[]"
              "Some [''page'' \<mapsto> Num (Finite False 1 0), ''active'' \<mapsto> Undefined]"
              "(\<lambda>r. Undefined)(0 := Str ''hello'', 1 := Num (Finite False 42 0), 2 := Bool True)"]
        resetParams_value
          [of "[(''keyword'', 0), (''page'', 1), (''active'', 2), (''tag'', 3)]" "''active''" 2 "[]"
              "Some [''page'' \<mapsto> Num (Finite False 1 0), ''active'' \<mapsto> Undefined]"
              "(\<lambda>r. Undefined)(0 := Str ''hello'', 1 := Num (Finite False 42 0), 2 := Bool True)"]
        resetParams_value
          [of "[(''keyword'', 0), (''page'', 1), (''active'', 2), (''tag'', 3)]" "''keyword''" 0 "[]"
              "Some [''page'' \<mapsto> Num (Finite False 1 0), ''active'' \<mapsto> Undefined]"
              "(\<lambda>r. Undefined)(0 := Str ''hello'', 1 := Num (Finite False 42 0), 2 := Bool True)"]
  by simp

end
